theory Spec2Isabelle
  imports
    Complex_Main
    "HOL-Library.Char_ord"
    "HOL-Library.List_Lexorder"
    "HOL-Library.Product_Lexorder"
begin

section \<open>Numbers and points\<close>

text \<open>
  Go's \<^verbatim>\<open>float64\<close> and \<^verbatim>\<open>float32\<close> values are read as the real numbers they
  denote; no rounding is modelled. The code of the repository only copies
  coordinates: it does no arithmetic on them.
\<close>

type_synonym float64 = real
type_synonym float32 = real

text \<open>
  \<^verbatim>\<open>type point struct { Pid string; Plat float64; Plon float64 }\<close> of the geo
  service. The imported \<^verbatim>\<open>geoindex.GeoPoint\<close>, which the service fills
  in for the query centre, has the same three fields, so one record serves both.
\<close>

record point =
  Pid :: string
  Plat :: float64
  Plon :: float64

type_synonym GeoPoint = point

text \<open>The three methods that make \<^verbatim>\<open>*point\<close> a \<^verbatim>\<open>geoindex.Point\<close>.\<close>

definition point_Lat :: "point \<Rightarrow> float64" where
  "point_Lat p = Plat p"

definition point_Lon :: "point \<Rightarrow> float64" where
  "point_Lon p = Plon p"

definition point_Id :: "point \<Rightarrow> string" where
  "point_Id p = Pid p"

section \<open>The geo service\<close>

text \<open>
  \<^verbatim>\<open>const ( maxSearchRadius = 10; maxSearchResults = 5 )\<close>
\<close>

definition maxSearchRadius :: real where
  "maxSearchRadius = 10"

definition maxSearchResults :: int where
  "maxSearchResults = 5"

text \<open>
  \<^verbatim>\<open>geoindex.Km(x)\<close> is the imported package's distance value for \<open>x\<close>
  kilometres; the service only builds it and hands it to \<^verbatim>\<open>KNearest\<close>.
\<close>

datatype radius = Km real

text \<open>
  The index type \<^verbatim>\<open>*geoindex.ClusteringIndex\<close> and its operations belong to the
  imported package \<^verbatim>\<open>github.com/hailocab/go-geoindex\<close>, whose code is not part of
  the repository. The service is therefore modelled over an arbitrary index type
  \<open>'idx\<close>, with the package's \<^verbatim>\<open>KNearest\<close> (the parameter \<open>knearest\<close>),
  \<^verbatim>\<open>NewClusteringIndex\<close> and \<^verbatim>\<open>Add\<close> as parameters of the functions that call them.
\<close>

type_synonym 'idx knearest =
  "'idx \<Rightarrow> GeoPoint \<Rightarrow> int \<Rightarrow> radius \<Rightarrow> (point \<Rightarrow> bool) \<Rightarrow> point list"

text \<open>
  \<^verbatim>\<open>type Geo struct { geoidx *geoindex.ClusteringIndex; tracer opentracing.Tracer }\<close>.
  The tracer is used by \<^verbatim>\<open>Run\<close> only and is left out.
\<close>

record 'idx Geo =
  geoidx :: 'idx

text \<open>
  \<^verbatim>\<open>func (s *Geo) getNearbyPoints(ctx, lat, lon float64) []geoindex.Point\<close>:
  the centre gets the empty id, and the index is asked with the two constants and
  the filter \<^verbatim>\<open>func(p geoindex.Point) bool { return true }\<close>.
\<close>

definition getNearbyPoints :: "'idx knearest \<Rightarrow> 'idx Geo \<Rightarrow> float64 \<Rightarrow> float64 \<Rightarrow> point list" where
  "getNearbyPoints knearest s lat lon =
     (let center = \<lparr>Pid = '''', Plat = lat, Plon = lon\<rparr>
      in knearest (geoidx s) center maxSearchResults (Km maxSearchRadius) (\<lambda>p. True))"

record geo_Request =
  req_Lat :: float32
  req_Lon :: float32

record geo_Result =
  HotelIds :: "string list"

text \<open>
  The loop of \<^verbatim>\<open>Nearby\<close>:
  \<^verbatim>\<open>for _, p := range points { res.HotelIds = append(res.HotelIds, p.Id()) }\<close>.
\<close>

fun append_ids :: "geo_Result \<Rightarrow> point list \<Rightarrow> geo_Result" where
  "append_ids res [] = res"
| "append_ids res (p # ps) = append_ids (res\<lparr>HotelIds := HotelIds res @ [point_Id p]\<rparr>) ps"

text \<open>
  \<^verbatim>\<open>func (s *Geo) Nearby(ctx, req *geo.Request) (*geo.Result, error)\<close>. The error
  is \<open>None\<close> for Go's \<^verbatim>\<open>nil\<close>. The conversions \<^verbatim>\<open>float64(req.Lat)\<close> and
  \<^verbatim>\<open>float64(req.Lon)\<close> are exact.
\<close>

definition Nearby :: "'idx knearest \<Rightarrow> 'idx Geo \<Rightarrow> geo_Request \<Rightarrow> geo_Result \<times> string option" where
  "Nearby knearest s req =
     (let points = getNearbyPoints knearest s (req_Lat req) (req_Lon req);
          res = \<lparr>HotelIds = []\<rparr>
      in (append_ids res points, None))"

subsection \<open>Loading the index\<close>

text \<open>
  How \<^verbatim>\<open>newGeoIndex\<close> can end without an index: \<^verbatim>\<open>data.MustAsset\<close> panics when
  the bundled file is missing; \<^verbatim>\<open>log.Fatalf("Failed to load hotels: %v", err)\<close>
  ends the process when the JSON does not decode; and a \<^verbatim>\<open>nil\<close> among the decoded
  pointers panics when the index reads it.
\<close>

datatype load_failure = AssetPanic string | LoadFatal string | AddNilPanic

text \<open>
  The loop \<^verbatim>\<open>for _, point := range points { index.Add(point) }\<close> over
  \<^verbatim>\<open>points []*point\<close>. A decoded element is a pointer, \<open>None\<close> being \<^verbatim>\<open>nil\<close>, which
  the decoder stores for a JSON \<^verbatim>\<open>null\<close>. \<^verbatim>\<open>Add\<close> gets the pointer as a
  \<^verbatim>\<open>geoindex.Point\<close> and reads it through the methods \<^verbatim>\<open>Lat\<close>, \<^verbatim>\<open>Lon\<close> and \<^verbatim>\<open>Id\<close>,
  whose bodies \<^verbatim>\<open>p.Plat\<close>, \<^verbatim>\<open>p.Plon\<close> and \<^verbatim>\<open>p.Pid\<close> panic on a \<^verbatim>\<open>nil\<close> receiver:
  the process ends there. On a point that is there, the call is a statement: the
  loop reads no result of it and goes on to the next point. \<^verbatim>\<open>Add\<close> itself is the
  parameter \<open>add\<close>, from the index before and the point read to the index after.
\<close>

fun add_points ::
  "('idx \<Rightarrow> point \<Rightarrow> 'idx) \<Rightarrow> 'idx \<Rightarrow> point option list \<Rightarrow> load_failure + 'idx" where
  "add_points add index [] = Inr index"
| "add_points add index (None # ps) = Inl AddNilPanic"
| "add_points add index (Some p # ps) = add_points add (add index p) ps"

text \<open>
  \<^verbatim>\<open>func newGeoIndex(path string) *geoindex.ClusteringIndex\<close>. The bundled assets
  are \<open>MustAsset\<close> (\<open>None\<close> where the package panics), the decoder into
  \<^verbatim>\<open>[]*point\<close> is \<open>Unmarshal\<close> (\<open>Inl\<close> its error text), and \<open>NewClusteringIndex\<close> is
  the package's empty index.
\<close>

definition newGeoIndex ::
  "(string \<Rightarrow> string option) \<Rightarrow> (string \<Rightarrow> string + point option list) \<Rightarrow> 'idx \<Rightarrow>
   ('idx \<Rightarrow> point \<Rightarrow> 'idx) \<Rightarrow> string \<Rightarrow> load_failure + 'idx" where
  "newGeoIndex MustAsset Unmarshal NewClusteringIndex add path =
     (case MustAsset path of
        None \<Rightarrow> Inl (AssetPanic path)
      | Some file \<Rightarrow>
          (case Unmarshal file of
             Inl err \<Rightarrow> Inl (LoadFatal (''Failed to load hotels: '' @ err))
           | Inr points \<Rightarrow> add_points add NewClusteringIndex points))"

section \<open>The profile service\<close>

text \<open>
  The fields of the generated \<^verbatim>\<open>profile.Hotel\<close> and of its address that the
  repository's code reads. A \<^verbatim>\<open>*profile.Hotel\<close> is a \<open>Hotel option\<close>, \<open>None\<close>
  being \<^verbatim>\<open>nil\<close>; likewise for the address.
\<close>

record Address =
  addr_Lat :: float32
  addr_Lon :: float32

record Hotel =
  hotel_Id :: string
  Name :: string
  PhoneNumber :: string
  hotel_Address :: "Address option"

record profile_Request =
  req_HotelIds :: "string list"
  Locale :: string

record profile_Result =
  Hotels :: "Hotel option list"

text \<open>
  \<^verbatim>\<open>type Profile struct { profiles map[string]*profile.Hotel; tracer ... }\<close>.
  Reading a Go map at a key it does not hold gives the zero value, here \<^verbatim>\<open>nil\<close>.
\<close>

record Profile =
  profiles :: "string \<rightharpoonup> Hotel"

definition getProfile :: "Profile \<Rightarrow> string \<Rightarrow> Hotel option" where
  "getProfile s ident = profiles s ident"

text \<open>
  The loop of \<^verbatim>\<open>GetProfiles\<close>:
  \<^verbatim>\<open>for _, id := range req.HotelIds { res.Hotels = append(res.Hotels, s.getProfile(id)) }\<close>.
\<close>

fun append_profiles :: "Profile \<Rightarrow> profile_Result \<Rightarrow> string list \<Rightarrow> profile_Result" where
  "append_profiles s res [] = res"
| "append_profiles s res (ident # ids) =
     append_profiles s (res\<lparr>Hotels := Hotels res @ [getProfile s ident]\<rparr>) ids"

text \<open>
  \<^verbatim>\<open>func (s *Profile) GetProfiles(ctx, req *profile.Request) (*profile.Result, error)\<close>;
  \<^verbatim>\<open>new(profile.Result)\<close> has no hotels.
\<close>

definition GetProfiles :: "Profile \<Rightarrow> profile_Request \<Rightarrow> profile_Result \<times> string option" where
  "GetProfiles s req = (append_profiles s \<lparr>Hotels = []\<rparr> (req_HotelIds req), None)"

section \<open>The frontend\<close>

subsection \<open>Requests, responses and the two clients\<close>

text \<open>
  \<^verbatim>\<open>r.URL.Query()\<close> is a \<^verbatim>\<open>url.Values\<close>, a map from a key to the list of its
  values; \<^verbatim>\<open>Get\<close> gives the first value of the key, and the empty string when
  the key has none.
\<close>

type_synonym Values = "string \<rightharpoonup> string list"

record Request =
  Query :: Values

definition Values_Get :: "Values \<Rightarrow> string \<Rightarrow> string" where
  "Values_Get v key =
     (case v key of
        None \<Rightarrow> ''''
      | Some [] \<Rightarrow> ''''
      | Some (x # xs) \<Rightarrow> x)"

text \<open>
  A query parameter is missing or empty: the key has no value, or its first value
  is the empty string. These are the cases in which \<^verbatim>\<open>Get\<close> gives the empty
  string (lemma \<open>Values_Get_empty_iff\<close>).
\<close>

definition missing_or_empty :: "Values \<Rightarrow> string \<Rightarrow> bool" where
  "missing_or_empty v key =
     (case v key of
        None \<Rightarrow> True
      | Some [] \<Rightarrow> True
      | Some (x # xs) \<Rightarrow> x = '''')"

text \<open>
  What a handler leaves in its \<^verbatim>\<open>http.ResponseWriter\<close>: the header map, the status
  code (0 while none is written) and the body, which is either text or the JSON
  value given to the encoder.
\<close>

datatype json = JString string | JNumber real | JArray "json list" | JObject "(string \<times> json) list"

datatype body = NoBody | PlainText string | JSON json

record ResponseWriter =
  Header :: "string \<rightharpoonup> string"
  StatusCode :: nat
  Body :: body

definition Header_Set :: "ResponseWriter \<Rightarrow> string \<Rightarrow> string \<Rightarrow> ResponseWriter" where
  "Header_Set w k v = w\<lparr>Header := (Header w)(k \<mapsto> v)\<rparr>"

definition StatusBadRequest :: nat where
  "StatusBadRequest = 400"

definition StatusInternalServerError :: nat where
  "StatusInternalServerError = 500"

definition StatusOK :: nat where
  "StatusOK = 200"

text \<open>
  \<^verbatim>\<open>http.Error(w, error, code)\<close> of Go's net/http: it declares the reply plain
  text, writes the status code, and prints the message followed by a newline.
\<close>

definition http_Error :: "ResponseWriter \<Rightarrow> string \<Rightarrow> nat \<Rightarrow> ResponseWriter" where
  "http_Error w err code =
     (let w1 = Header_Set w ''Content-Type'' ''text/plain; charset=utf-8'';
          w2 = Header_Set w1 ''X-Content-Type-Options'' ''nosniff''
      in w2\<lparr>StatusCode := code, Body := PlainText (err @ [CHR 0x0A])\<rparr>)"

text \<open>
  \<^verbatim>\<open>json.NewEncoder(w).Encode(v)\<close> on a writer with no status yet: the first write
  sends status 200, and the body is the encoding of \<open>v\<close>.
\<close>

definition Encode :: "ResponseWriter \<Rightarrow> json \<Rightarrow> ResponseWriter" where
  "Encode w v = w\<lparr>StatusCode := StatusOK, Body := JSON v\<rparr>"

record NearbyRequest =
  Lat :: float32
  Lon :: float32
  InDate :: string
  OutDate :: string

record search_Result =
  res_HotelIds :: "string list"

text \<open>
  \<^verbatim>\<open>type Frontend struct { searchClient; profileClient; tracer }\<close>. A client is
  the function from the request it is sent to what the remote call gives back:
  \<open>Inl\<close> the text of a non-nil error (\<^verbatim>\<open>err.Error()\<close>), \<open>Inr\<close> the response.
\<close>

record Frontend =
  searchClient :: "NearbyRequest \<Rightarrow> string + search_Result"
  profileClient :: "profile_Request \<Rightarrow> string + profile_Result"

text \<open>The remote calls a handler made, in the order it made them.\<close>

datatype rpc_call = Call_Nearby NearbyRequest | Call_GetProfiles profile_Request

subsection \<open>The GeoJSON value\<close>

text \<open>
  One feature of \<^verbatim>\<open>geoJSONResponse\<close>. The code reads \<^verbatim>\<open>h.Id\<close> and
  \<^verbatim>\<open>h.Address.Lon\<close> through the pointers, which panics on \<^verbatim>\<open>nil\<close>: \<open>None\<close>.
\<close>

definition feature :: "Hotel option \<Rightarrow> json option" where
  "feature hp =
     (case hp of
        None \<Rightarrow> None
      | Some h \<Rightarrow>
          (case hotel_Address h of
             None \<Rightarrow> None
           | Some a \<Rightarrow>
               Some (JObject
                 [(''type'', JString ''Feature''),
                  (''id'', JString (hotel_Id h)),
                  (''properties'', JObject
                     [(''name'', JString (Name h)),
                      (''phone_number'', JString (PhoneNumber h))]),
                  (''geometry'', JObject
                     [(''type'', JString ''Point''),
                      (''coordinates'', JArray [JNumber (addr_Lon a), JNumber (addr_Lat a)])])])))"

fun features :: "json list \<Rightarrow> Hotel option list \<Rightarrow> json list option" where
  "features fs [] = Some fs"
| "features fs (h # hs) =
     (case feature h of
        None \<Rightarrow> None
      | Some f \<Rightarrow> features (fs @ [f]) hs)"

definition geoJSONResponse :: "Hotel option list \<Rightarrow> json option" where
  "geoJSONResponse hs =
     (case features [] hs of
        None \<Rightarrow> None
      | Some fs \<Rightarrow>
          Some (JObject [(''type'', JString ''FeatureCollection''), (''features'', JArray fs)]))"

subsection \<open>The handler of /hotels\<close>

text \<open>
  What \<^verbatim>\<open>searchHandler\<close> leaves behind: the reply it wrote, or a panic before it
  wrote one, together with the remote calls it made.
\<close>

datatype reply = Reply ResponseWriter | NilPointerPanic

text \<open>
  \<^verbatim>\<open>func (s *Frontend) searchHandler(w http.ResponseWriter, r *http.Request)\<close>.
  The request context, which only carries the trace span and the cancellation,
  is left out of the calls.
\<close>

definition searchHandler :: "Frontend \<Rightarrow> ResponseWriter \<Rightarrow> Request \<Rightarrow> reply \<times> rpc_call list" where
  "searchHandler s w r =
     (let w0 = Header_Set w ''Access-Control-Allow-Origin'' ''*'';
          inDate = Values_Get (Query r) ''inDate'';
          outDate = Values_Get (Query r) ''outDate''
      in if inDate = '''' \<or> outDate = '''' then
           (Reply (http_Error w0 ''Please specify inDate/outDate params'' StatusBadRequest), [])
         else
           (let nearbyReq = \<lparr>Lat = 37.7879, Lon = - 122.4075, InDate = inDate, OutDate = outDate\<rparr>
            in (case searchClient s nearbyReq of
                  Inl err \<Rightarrow>
                    (Reply (http_Error w0 err StatusInternalServerError), [Call_Nearby nearbyReq])
                | Inr searchResp \<Rightarrow>
                    (let locale0 = Values_Get (Query r) ''locale'';
                         locale = (if locale0 = '''' then ''en'' else locale0);
                         profileReq = \<lparr>req_HotelIds = res_HotelIds searchResp, Locale = locale\<rparr>;
                         calls = [Call_Nearby nearbyReq, Call_GetProfiles profileReq]
                     in (case profileClient s profileReq of
                           Inl err \<Rightarrow> (Reply (http_Error w0 err StatusInternalServerError), calls)
                         | Inr profileResp \<Rightarrow>
                             (case geoJSONResponse (Hotels profileResp) of
                                None \<Rightarrow> (NilPointerPanic, calls)
                              | Some v \<Rightarrow> (Reply (Encode w0 v), calls)))))))"

text \<open>The writer a handler is given: no header, no status, no body.\<close>

definition new_ResponseWriter :: ResponseWriter where
  "new_ResponseWriter = \<lparr>Header = Map.empty, StatusCode = 0, Body = NoBody\<rparr>"

section \<open>The tracer\<close>

text \<open>
  \<^verbatim>\<open>func New(serviceName, host string) (opentracing.Tracer, error)\<close> of package
  trace. The Jaeger configuration's \<^verbatim>\<open>cfg.New\<close> is the parameter \<open>cfg_New\<close>, giving
  the text of its error or \<open>None\<close> when it made a tracer; the tracer itself is
  opaque to the code and is not represented.
\<close>

definition trace_New :: "(string \<Rightarrow> string \<Rightarrow> string option) \<Rightarrow> string \<Rightarrow> string \<Rightarrow> string option" where
  "trace_New cfg_New serviceName host =
     (case cfg_New serviceName host of
        Some err \<Rightarrow> Some (''new tracer error: '' @ err)
      | None \<Rightarrow> None)"

section \<open>The entry point\<close>

text \<open>
  The flags of \<^verbatim>\<open>main\<close> after \<^verbatim>\<open>flag.Parse()\<close>, and \<^verbatim>\<open>flag.Args()\<close>, the
  arguments the flag package leaves after the flags (the positional arguments).
  \<^verbatim>\<open>main\<close> never reads the latter: it takes the command from \<^verbatim>\<open>os.Args[1]\<close>.
\<close>

record flags =
  port :: int
  jaegeraddr :: string
  profileaddr :: string
  geoaddr :: string
  rateaddr :: string
  searchaddr :: string
  flag_Args :: "string list"

text \<open>
  The defaults of the six flags, as \<^verbatim>\<open>main\<close> declares them, with no argument
  left over.
\<close>

definition default_flags :: flags where
  "default_flags =
     \<lparr>port = 8080, jaegeraddr = ''jaeger:6831'', profileaddr = ''profile:8080'',
      geoaddr = ''geo:8080'', rateaddr = ''rate:8080'', searchaddr = ''search:8080'',
      flag_Args = []\<rparr>"

text \<open>A dialled connection, known by its address.\<close>

datatype conn = ClientConn string

text \<open>
  The value of \<^verbatim>\<open>var srv server\<close>: which of the five services was built, with the
  connections it was given.
\<close>

datatype server =
    Geo_server
  | Rate_server
  | Profile_server
  | Search_server conn conn
  | Frontend_server conn conn

datatype panic_value =
    IndexOutOfRange nat nat
  | SliceBoundsOutOfRange nat nat
  | PanicMessage string

text \<open>
  How the process goes on from \<^verbatim>\<open>main\<close>: the flag package ends it on a bad flag
  (\<open>FlagExit\<close>), \<^verbatim>\<open>log.Fatalf\<close> ends it with a message, a panic ends it, the
  listen loop keeps serving, or \<^verbatim>\<open>main\<close> returns.
\<close>

datatype outcome = FlagExit | Fatal string | Panic panic_value | Serving | Returned

text \<open>What \<^verbatim>\<open>main\<close> did on the way, in order.\<close>

datatype event =
    Ev_trace_New string string
  | Ev_Dial string
  | Ev_New server
  | Ev_Run server int

text \<open>
  What \<^verbatim>\<open>main\<close> calls outside itself: the flag package (\<open>None\<close> when it ends the
  process), the Jaeger configuration, \<^verbatim>\<open>grpc.Dial\<close> (the text of its error, or
  \<open>None\<close>), the constructor of a service (\<open>Some\<close> how the process ended inside
  it, as when the geo data fail to load, or \<open>None\<close>), and the service's \<^verbatim>\<open>Run\<close>
  (\<open>Inl\<close> when the process ends or keeps serving inside it, \<open>Inr\<close> the error it
  returns, \<open>None\<close> for \<^verbatim>\<open>nil\<close>).
\<close>

record env =
  flag_Parse :: "string list \<Rightarrow> flags option"
  cfg_New :: "string \<Rightarrow> string \<Rightarrow> string option"
  grpc_Dial :: "string \<Rightarrow> string option"
  srv_New :: "server \<Rightarrow> outcome option"
  srv_Run :: "server \<Rightarrow> int \<Rightarrow> outcome + string option"

text \<open>
  \<^verbatim>\<open>func dial(addr string, t opentracing.Tracer) *grpc.ClientConn\<close>: a failed dial
  panics with \<^verbatim>\<open>fmt.Sprintf("ERROR: dial error: %v", err)\<close>.
\<close>

definition dial :: "env \<Rightarrow> string \<Rightarrow> outcome + conn" where
  "dial E addr =
     (case grpc_Dial E addr of
        Some err \<Rightarrow> Inl (Panic (PanicMessage (''ERROR: dial error: '' @ err)))
      | None \<Rightarrow> Inr (ClientConn addr))"

text \<open>
  The end of \<^verbatim>\<open>main\<close> once the arguments of a constructor are there: the
  constructor, then \<^verbatim>\<open>srv.Run(*port)\<close> and
  \<^verbatim>\<open>log.Fatalf("run %s error: %v", cmd, err)\<close> when it returns an error.
\<close>

definition start :: "env \<Rightarrow> string \<Rightarrow> flags \<Rightarrow> server \<Rightarrow> event list \<Rightarrow> outcome \<times> event list" where
  "start E cmd f srv evs =
     (case srv_New E srv of
        Some ended \<Rightarrow> (ended, evs @ [Ev_New srv])
      | None \<Rightarrow>
          (case srv_Run E srv (port f) of
             Inl ended \<Rightarrow> (ended, evs @ [Ev_New srv, Ev_Run srv (port f)])
           | Inr None \<Rightarrow> (Returned, evs @ [Ev_New srv, Ev_Run srv (port f)])
           | Inr (Some err) \<Rightarrow>
               (Fatal (''run '' @ cmd @ '' error: '' @ err),
                evs @ [Ev_New srv, Ev_Run srv (port f)])))"

text \<open>
  A constructor with two dialled connections: the arguments are evaluated left to
  right, so the first address is dialled first, and a panic of either dial comes
  before the constructor.
\<close>

definition start_with ::
  "env \<Rightarrow> string \<Rightarrow> flags \<Rightarrow> (conn \<Rightarrow> conn \<Rightarrow> server) \<Rightarrow> string \<Rightarrow> string \<Rightarrow> event list \<Rightarrow>
   outcome \<times> event list" where
  "start_with E cmd f new addr1 addr2 evs =
     (case dial E addr1 of
        Inl ended \<Rightarrow> (ended, evs @ [Ev_Dial addr1])
      | Inr c1 \<Rightarrow>
          (case dial E addr2 of
             Inl ended \<Rightarrow> (ended, evs @ [Ev_Dial addr1, Ev_Dial addr2])
           | Inr c2 \<Rightarrow> start E cmd f (new c1 c2) (evs @ [Ev_Dial addr1, Ev_Dial addr2])))"

text \<open>
  \<^verbatim>\<open>func main()\<close>, from the argument vector \<^verbatim>\<open>os.Args\<close>. \<^verbatim>\<open>flag.Parse()\<close> reads
  \<^verbatim>\<open>os.Args[1:]\<close>; the tracer is made next; then \<^verbatim>\<open>var cmd = os.Args[1]\<close>, an
  index expression that panics when the vector holds the program name only; then
  the switch.
\<close>

definition main :: "env \<Rightarrow> string list \<Rightarrow> outcome \<times> event list" where
  "main E os_Args =
     (if os_Args = [] then (Panic (SliceBoundsOutOfRange 1 0), [])
      else
        (case flag_Parse E (tl os_Args) of
           None \<Rightarrow> (FlagExit, [])
         | Some f \<Rightarrow>
             (let evs = [Ev_trace_New ''search'' (jaegeraddr f)]
              in (case trace_New (cfg_New E) ''search'' (jaegeraddr f) of
                    Some err \<Rightarrow> (Fatal (''trace new error: '' @ err), evs)
                  | None \<Rightarrow>
                      if length os_Args \<le> 1 then
                        (Panic (IndexOutOfRange 1 (length os_Args)), evs)
                      else
                        (let cmd = os_Args ! 1
                         in if cmd = ''geo'' then start E cmd f Geo_server evs
                            else if cmd = ''rate'' then start E cmd f Rate_server evs
                            else if cmd = ''profile'' then start E cmd f Profile_server evs
                            else if cmd = ''search'' then
                              start_with E cmd f Search_server (geoaddr f) (rateaddr f) evs
                            else if cmd = ''frontend'' then
                              start_with E cmd f Frontend_server (searchaddr f) (profileaddr f) evs
                            else (Fatal (''unknown cmd: '' @ cmd), evs))))))"

text \<open>The five role tokens of the switch.\<close>

definition role_tokens :: "string list" where
  "role_tokens = [''geo'', ''rate'', ''profile'', ''search'', ''frontend'']"

text \<open>An event that builds a service, dials for one, or starts a listen loop.\<close>

fun facade_event :: "event \<Rightarrow> bool" where
  "facade_event (Ev_trace_New n h) = False"
| "facade_event (Ev_Dial a) = True"
| "facade_event (Ev_New srv) = True"
| "facade_event (Ev_Run srv p) = True"

section \<open>The contract of the proximity index\<close>

text \<open>
  The repository imports the index from \<^verbatim>\<open>github.com/hailocab/go-geoindex\<close> and holds
  only the calls to it. The definitions of this section follow section 4.1 of the
  specification; they say nothing of that package's code.
\<close>

text \<open>
  Modelled from the spec: the radius of the sphere on which "great-circle
  (haversine) distance" is measured; the code of the distance is missing. The
  specification measures in kilometres and names no radius: the Earth's mean
  radius is taken. No property below depends on its value.
\<close>

definition earthRadiusKm :: real where
  "earthRadiusKm = 6371"

text \<open>
  Modelled from the spec: latitude and longitude are degrees ("lat: float in
  [-90,90], lon: float in [-180,180]"); the conversion to radians that the
  missing distance code needs.
\<close>

definition radians :: "real \<Rightarrow> real" where
  "radians d = d * pi / 180"

text \<open>
  Modelled from the spec: the "great-circle (haversine) distance" between two
  points, in kilometres, by the haversine formula; the code of the distance is
  missing.
\<close>

definition haversine :: "point \<Rightarrow> point \<Rightarrow> real" where
  "haversine a b =
     (let h = (sin (radians (Plat b - Plat a) / 2))\<^sup>2 +
              cos (radians (Plat a)) * cos (radians (Plat b)) *
              (sin (radians (Plon b - Plon a) / 2))\<^sup>2
      in 2 * earthRadiusKm * arcsin (sqrt h))"

text \<open>
  Modelled from the spec: the rank of a candidate of the missing \<^verbatim>\<open>KNearest\<close>,
  "sorted ascending by distance; ties broken by ascending point id". Pairs are
  compared lexicographically and ids as byte strings.
\<close>

definition rank :: "point \<Rightarrow> point \<Rightarrow> real \<times> string" where
  "rank center p = (haversine center p, Pid p)"

text \<open>
  Modelled from the spec: \<^verbatim>\<open>KNearest(center, k, radiusKm, predicate)\<close>, missing
  from the repository, over the points the index holds. "Candidates are filtered
  by predicate before ranking", "points farther than radiusKm are excluded even
  if fewer than k remain", the result is an "ordered sequence of GeoPoint, length
  \<le> k". The cells and rings of the specification bound the search only: "any
  cell-partitioning strategy satisfying those properties is acceptable", so the
  index is given by its points. The specification states the contract for
  \<open>k \<ge> 1\<close> and \<open>radiusKm > 0\<close>; the definition gives a value for every input.
\<close>

definition KNearest :: "point list \<Rightarrow> point \<Rightarrow> int \<Rightarrow> real \<Rightarrow> (point \<Rightarrow> bool) \<Rightarrow> point list" where
  "KNearest index center k radiusKm predicate =
     take (nat k)
       (sort_key (rank center)
          (filter (\<lambda>p. haversine center p \<le> radiusKm) (filter predicate index)))"

text \<open>
  Modelled from the spec: the missing \<^verbatim>\<open>KNearest\<close> in the shape in which the geo
  service calls it, the radius being the kilometres given to \<^verbatim>\<open>geoindex.Km\<close>.
\<close>

fun index_KNearest :: "point list knearest" where
  "index_KNearest index center k (Km r) predicate = KNearest index center k r predicate"

text \<open>
  The order the claims ask of a result: \<open>p\<close> may come before \<open>q\<close> when it is
  nearer to the centre, or as near and of an id that is not greater.
\<close>

definition nearer :: "point \<Rightarrow> point \<Rightarrow> point \<Rightarrow> bool" where
  "nearer center p q =
     (haversine center p < haversine center q \<or>
      (haversine center p = haversine center q \<and> Pid p \<le> Pid q))"

section \<open>Example data\<close>

text \<open>
  Two points at the same place with different ids, a point half the globe away,
  and a centre at the place of the first two.
\<close>

definition pA :: point where
  "pA = \<lparr>Pid = ''A'', Plat = 0, Plon = 1\<rparr>"

definition pB :: point where
  "pB = \<lparr>Pid = ''B'', Plat = 0, Plon = 1\<rparr>"

definition pFar :: point where
  "pFar = \<lparr>Pid = ''C'', Plat = 0, Plon = 181\<rparr>"

definition c0 :: point where
  "c0 = \<lparr>Pid = '''', Plat = 0, Plon = 1\<rparr>"

text \<open>
  An index kept as the list of its points, \<^verbatim>\<open>Add\<close> putting a point at the end,
  and a query that takes the first \<open>k\<close> accepted points; they stand in for the
  imported index where an example needs one.
\<close>

definition list_Add :: "point list \<Rightarrow> point \<Rightarrow> point list" where
  "list_Add index p = index @ [p]"

definition first_k :: "point list knearest" where
  "first_k index center k r predicate = take (nat k) (filter predicate index)"

text \<open>
  A geo file of two points that share the id 1, the second at latitude 91 and
  longitude 200; and a file of the first point and a JSON null.
\<close>

definition dup1 :: point where
  "dup1 = \<lparr>Pid = ''1'', Plat = 37.7867, Plon = - 122.4112\<rparr>"

definition dup2 :: point where
  "dup2 = \<lparr>Pid = ''1'', Plat = 91, Plon = 200\<rparr>"

definition example_MustAsset :: "string \<Rightarrow> string option" where
  "example_MustAsset path =
     (if path = ''data/geo.json'' then Some ''geo''
      else if path = ''data/null.json'' then Some ''null''
      else None)"

definition example_Unmarshal :: "string \<Rightarrow> string + point option list" where
  "example_Unmarshal file =
     (if file = ''geo'' then Inr [Some dup1, Some dup2]
      else if file = ''null'' then Inr [Some dup1, None]
      else Inl ''unexpected end of JSON input'')"

text \<open>A profile service that knows one hotel.\<close>

definition hotel1 :: Hotel where
  "hotel1 = \<lparr>hotel_Id = ''1'', Name = ''Clift Hotel'', PhoneNumber = ''(415) 775-4700'',
             hotel_Address = Some \<lparr>addr_Lat = 37.7867, addr_Lon = - 122.4112\<rparr>\<rparr>"

definition example_Profile :: Profile where
  "example_Profile = \<lparr>profiles = [''1'' \<mapsto> hotel1]\<rparr>"

text \<open>
  Two requests to /hotels, one without parameters and one with both dates, and
  two frontends, one whose search call fails and one whose calls succeed.
\<close>

definition request_no_dates :: Request where
  "request_no_dates = \<lparr>Query = Map.empty\<rparr>"

definition request_dates :: Request where
  "request_dates = \<lparr>Query = [''inDate'' \<mapsto> [''2015-04-09''], ''outDate'' \<mapsto> [''2015-04-10'']]\<rparr>"

definition failing_Frontend :: Frontend where
  "failing_Frontend =
     \<lparr>searchClient = (\<lambda>req. Inl ''rpc error: code = Unavailable''),
      profileClient = (\<lambda>req. Inr \<lparr>Hotels = []\<rparr>)\<rparr>"

definition ok_Frontend :: Frontend where
  "ok_Frontend =
     \<lparr>searchClient = (\<lambda>req. Inr \<lparr>res_HotelIds = [''1'']\<rparr>),
      profileClient = (\<lambda>req. Inr \<lparr>Hotels = [Some hotel1]\<rparr>)\<rparr>"

text \<open>
  What Go's flag package gives \<^verbatim>\<open>main\<close> on the argument vectors of the examples:
  no argument leaves the defaults; \<^verbatim>\<open>-port 9000\<close> sets the port and leaves no
  positional argument; \<^verbatim>\<open>cache\<close> is a positional argument. The environment
  around it never fails: the tracer is made, every dial connects, every service is
  built and serves.
\<close>

definition example_Parse :: "string list \<Rightarrow> flags option" where
  "example_Parse rest =
     (if rest = [] then Some default_flags
      else if rest = [''-port'', ''9000''] then Some (default_flags\<lparr>port := 9000\<rparr>)
      else if rest = [''cache''] then Some (default_flags\<lparr>flag_Args := [''cache'']\<rparr>)
      else None)"

definition example_env :: env where
  "example_env =
     \<lparr>flag_Parse = example_Parse,
      cfg_New = (\<lambda>serviceName host. None),
      grpc_Dial = (\<lambda>addr. None),
      srv_New = (\<lambda>srv. None),
      srv_Run = (\<lambda>srv p. Inl Serving)\<rparr>"

section \<open>Properties of the proximity index contract\<close>

lemma sorted_wrt_rank:
  "sorted (map (rank c) ps) \<Longrightarrow> sorted_wrt (nearer c) ps"
  unfolding sorted_map
  by (erule sorted_wrt_mono_rel[rotated]) (auto simp: rank_def nearer_def less_eq_prod_def)

lemma KNearest_sorted: "sorted_wrt (nearer c) (KNearest index c k r predicate)"
  unfolding KNearest_def
  by (rule sorted_wrt_take, rule sorted_wrt_rank) simp

lemma KNearest_subset:
  "set (KNearest index c k r predicate) \<subseteq> {p \<in> set index. predicate p \<and> haversine c p \<le> r}"
  unfolding KNearest_def using set_take_subset[of "nat k"] by fastforce

lemma getNearbyPoints_index:
  "getNearbyPoints index_KNearest s lat lon =
     KNearest (geoidx s) \<lparr>Pid = '''', Plat = lat, Plon = lon\<rparr> 5 10 (\<lambda>p. True)"
  by (simp add: getNearbyPoints_def maxSearchResults_def maxSearchRadius_def)

lemma haversine_same: "Plat a = Plat b \<Longrightarrow> Plon a = Plon b \<Longrightarrow> haversine a b = 0"
  by (simp add: haversine_def radians_def)

lemma haversine_c0_pFar: "haversine c0 pFar = earthRadiusKm * pi"
  by (simp add: haversine_def pFar_def c0_def radians_def)

lemma haversine_far: "10 < haversine c0 pFar"
  using pi_ge_two by (simp add: haversine_c0_pFar earthRadiusKm_def)

lemma KNearest_example: "KNearest [pB, pFar, pA] c0 5 10 (\<lambda>p. True) = [pA, pB]"
proof -
  have "haversine c0 pA = 0" "haversine c0 pB = 0"
    by (simp_all add: haversine_same c0_def pA_def pB_def)
  moreover have "\<not> haversine c0 pFar \<le> 10"
    using haversine_far by simp
  moreover have "Pid pA \<le> Pid pB" "\<not> Pid pB \<le> Pid pA"
    by (simp_all add: pA_def pB_def)
  ultimately show ?thesis
    by (simp add: KNearest_def rank_def less_eq_prod_def)
qed

text \<open>
  Claim C1. For every index and every query, the points \<open>KNearest\<close> returns are in
  ascending order of great-circle (haversine) distance from the query centre, and
  points at the same distance are in ascending order of id; so are the points the
  geo service's \<open>getNearbyPoints\<close> gets from it. The statement is about the
  contract of the specification: the code of the imported index is not in the
  repository.
\<close>

theorem KNearest_ascending_distance_then_id:
  "sorted_wrt (nearer center) (KNearest index center k radiusKm predicate) \<and>
   sorted_wrt (nearer \<lparr>Pid = '''', Plat = lat, Plon = lon\<rparr>)
     (getNearbyPoints index_KNearest s lat lon)"
proof
  show "sorted_wrt (nearer center) (KNearest index center k radiusKm predicate)"
    by (rule KNearest_sorted)
next
  have "getNearbyPoints index_KNearest s lat lon =
      KNearest (geoidx s) \<lparr>Pid = '''', Plat = lat, Plon = lon\<rparr> 5 10 (\<lambda>p. True)"
    by (rule getNearbyPoints_index)
  then show "sorted_wrt (nearer \<lparr>Pid = '''', Plat = lat, Plon = lon\<rparr>)
      (getNearbyPoints index_KNearest s lat lon)"
    by (simp add: KNearest_sorted)
qed

theorem KNearest_ascending_distance_then_id_witness:
  "KNearest [pB, pFar, pA] c0 5 10 (\<lambda>p. True) = [pA, pB] \<and>
   haversine c0 pA = haversine c0 pB \<and> Pid pA \<le> Pid pB \<and> nearer c0 pA pB"
proof -
  have "sorted_wrt (nearer c0) (KNearest [pB, pFar, pA] c0 5 10 (\<lambda>p. True))"
    using KNearest_ascending_distance_then_id[of c0 "[pB, pFar, pA]" 5 10 "\<lambda>p. True"]
    by simp
  then have "nearer c0 pA pB"
    by (simp add: KNearest_example)
  moreover have "haversine c0 pA = haversine c0 pB"
    by (simp add: haversine_same c0_def pA_def pB_def)
  moreover have "Pid pA \<le> Pid pB"
    by (simp add: pA_def pB_def)
  ultimately show ?thesis
    by (simp add: KNearest_example)
qed

text \<open>
  Claim C2. For every query, \<open>KNearest\<close> returns at most \<open>k\<close> points, each within
  \<open>radiusKm\<close> of the centre by great-circle distance, and a point farther than
  \<open>radiusKm\<close> is never returned, however few points are; through
  \<open>getNearbyPoints\<close> that is at most 5 points within 10 km. The statement is about
  the contract of the specification: the code of the imported index is not in the
  repository.
\<close>

theorem KNearest_within_k_and_radius:
  "length (KNearest index center k radiusKm predicate) \<le> nat k \<and>
   (\<forall>p \<in> set (KNearest index center k radiusKm predicate). haversine center p \<le> radiusKm) \<and>
   (\<forall>p. radiusKm < haversine center p \<longrightarrow>
        p \<notin> set (KNearest index center k radiusKm predicate)) \<and>
   length (getNearbyPoints index_KNearest s lat lon) \<le> 5 \<and>
   (\<forall>p \<in> set (getNearbyPoints index_KNearest s lat lon).
        haversine \<lparr>Pid = '''', Plat = lat, Plon = lon\<rparr> p \<le> 10)"
proof -
  have len: "length (KNearest ix c n r pr) \<le> nat n" for ix c n r pr
    by (simp add: KNearest_def)
  have within: "\<forall>p \<in> set (KNearest ix c n r pr). haversine c p \<le> r" for ix c n r pr
    using KNearest_subset[of ix c n r pr] by blast
  have "\<forall>p. radiusKm < haversine center p \<longrightarrow>
          p \<notin> set (KNearest index center k radiusKm predicate)"
    using within[of index center k radiusKm predicate] by fastforce
  moreover have "length (getNearbyPoints index_KNearest s lat lon) \<le> 5"
    using len[of "geoidx s" _ 5 10] by (simp add: getNearbyPoints_index)
  ultimately show ?thesis
    using len within by (simp add: getNearbyPoints_index)
qed

theorem KNearest_within_k_and_radius_witness:
  "length (KNearest [pB, pFar, pA] c0 5 10 (\<lambda>p. True)) = 2 \<and>
   pA \<in> set (KNearest [pB, pFar, pA] c0 5 10 (\<lambda>p. True)) \<and>
   haversine c0 pA \<le> 10 \<and>
   10 < haversine c0 pFar \<and>
   pFar \<notin> set (KNearest [pB, pFar, pA] c0 5 10 (\<lambda>p. True))"
proof -
  note inst = KNearest_within_k_and_radius[of "[pB, pFar, pA]" c0 5 10 "\<lambda>p. True"]
  have mem: "pA \<in> set (KNearest [pB, pFar, pA] c0 5 10 (\<lambda>p. True))"
    by (simp add: KNearest_example)
  with inst have "haversine c0 pA \<le> 10"
    by blast
  moreover from inst haversine_far
  have "pFar \<notin> set (KNearest [pB, pFar, pA] c0 5 10 (\<lambda>p. True))"
    by blast
  ultimately show ?thesis
    using mem haversine_far by (simp add: KNearest_example)
qed

section \<open>Properties of the geo service\<close>

lemma append_ids_eq:
  "append_ids res ps = res\<lparr>HotelIds := HotelIds res @ map point_Id ps\<rparr>"
  by (induction ps arbitrary: res) simp_all

lemma add_points_foldl: "add_points add index (map Some ps) = Inr (foldl add index ps)"
  by (induction ps arbitrary: index) simp_all

lemma add_points_nil: "None \<in> set ptrs \<Longrightarrow> add_points add index ptrs = Inl AddNilPanic"
  by (induction add index ptrs rule: add_points.induct) auto

text \<open>
  A JSON \<^verbatim>\<open>null\<close> among the points ends the load with the panic of the nil
  pointer, as in a file that decodes to the first example point and \<^verbatim>\<open>nil\<close>.
\<close>

lemma newGeoIndex_nil_pointer:
  "MustAsset path = Some file \<Longrightarrow> Unmarshal file = Inr ptrs \<Longrightarrow> None \<in> set ptrs \<Longrightarrow>
   newGeoIndex MustAsset Unmarshal NewClusteringIndex add path = Inl AddNilPanic"
  by (simp add: newGeoIndex_def add_points_nil)

lemma newGeoIndex_nil_pointer_example:
  "newGeoIndex example_MustAsset example_Unmarshal [] list_Add ''data/null.json'' =
     Inl AddNilPanic"
  by (simp add: newGeoIndex_def example_MustAsset_def example_Unmarshal_def)

text \<open>
  Claim C6. For every request, whatever the index and its \<open>KNearest\<close> are,
  \<open>Nearby\<close> asks \<open>KNearest\<close> once, at the centre of the request with the empty id,
  with \<open>k = 5\<close>, the radius \<open>Km 10\<close> and the predicate that is always true; it
  returns the ids of the points it got, in the same order, and the error \<open>nil\<close>.
\<close>

theorem Nearby_delegates:
  "Nearby knearest s req =
     (\<lparr>HotelIds = map point_Id
        (knearest (geoidx s) \<lparr>Pid = '''', Plat = req_Lat req, Plon = req_Lon req\<rparr>
           5 (Km 10) (\<lambda>p. True))\<rparr>, None)"
proof -
  let ?center = "\<lparr>Pid = '''', Plat = req_Lat req, Plon = req_Lon req\<rparr>"
  let ?points = "getNearbyPoints knearest s (req_Lat req) (req_Lon req)"
  have asked: "?points = knearest (geoidx s) ?center 5 (Km 10) (\<lambda>p. True)"
    by (simp add: getNearbyPoints_def maxSearchResults_def maxSearchRadius_def)
  have "append_ids \<lparr>HotelIds = []\<rparr> ?points = \<lparr>HotelIds = map point_Id ?points\<rparr>"
    by (simp add: append_ids_eq)
  then have "Nearby knearest s req = (\<lparr>HotelIds = map point_Id ?points\<rparr>, None)"
    by (simp add: Nearby_def)
  with asked show ?thesis
    by simp
qed

theorem Nearby_delegates_witness:
  "Nearby first_k \<lparr>geoidx = [pB, pFar, pA]\<rparr> \<lparr>req_Lat = 0, req_Lon = 1\<rparr> =
     (\<lparr>HotelIds = [''B'', ''C'', ''A'']\<rparr>, None)"
  using Nearby_delegates[of first_k "\<lparr>geoidx = [pB, pFar, pA]\<rparr>" "\<lparr>req_Lat = 0, req_Lon = 1\<rparr>"]
  by (simp add: first_k_def point_Id_def pA_def pB_def pFar_def)

text \<open>
  Claim C3, as the code has it. \<open>newGeoIndex\<close> checks neither ids nor
  coordinates: whenever the bundled file is there and decodes to a sequence of
  points, none of them \<^verbatim>\<open>null\<close>, it returns the index to which \<open>Add\<close> was applied
  for every point, in file order, whatever the ids and coordinates are.
\<close>

theorem newGeoIndex_adds_every_point:
  assumes "MustAsset path = Some file"
    and "Unmarshal file = Inr (map Some points)"
  shows "newGeoIndex MustAsset Unmarshal NewClusteringIndex add path =
           Inr (foldl add NewClusteringIndex points)"
proof -
  have "add_points add NewClusteringIndex (map Some points) =
      Inr (foldl add NewClusteringIndex points)"
    by (rule add_points_foldl)
  with assms show ?thesis
    by (simp add: newGeoIndex_def)
qed

theorem newGeoIndex_adds_every_point_witness:
  "example_MustAsset ''data/geo.json'' = Some ''geo'' \<and>
   example_Unmarshal ''geo'' = Inr (map Some [dup1, dup2]) \<and>
   newGeoIndex example_MustAsset example_Unmarshal [] list_Add ''data/geo.json'' = Inr [dup1, dup2]"
proof -
  have a: "example_MustAsset ''data/geo.json'' = Some ''geo''"
    by (simp add: example_MustAsset_def)
  have b: "example_Unmarshal ''geo'' = Inr (map Some [dup1, dup2])"
    by (simp add: example_Unmarshal_def)
  from newGeoIndex_adds_every_point[of example_MustAsset "''data/geo.json''" "''geo''"
      example_Unmarshal "[dup1, dup2]" "[]" list_Add, OF a b] a b
  show ?thesis by (simp add: list_Add_def)
qed

text \<open>
  Claim C3 as stated fails: a file whose two points share an id, the second with
  latitude 91 and longitude 200, is loaded without a failure. With an \<open>Add\<close> that
  puts each point at the end, the index returned holds both.
\<close>

theorem newGeoIndex_duplicate_id_counterexample:
  "Pid dup1 = Pid dup2 \<and> 90 < Plat dup2 \<and> 180 < Plon dup2 \<and>
   newGeoIndex example_MustAsset example_Unmarshal [] list_Add ''data/geo.json'' = Inr [dup1, dup2]"
  by (simp add: newGeoIndex_def example_MustAsset_def example_Unmarshal_def list_Add_def
      dup1_def dup2_def)

section \<open>Properties of the profile service\<close>

lemma append_profiles_Hotels:
  "Hotels (append_profiles s res ids) = Hotels res @ map (getProfile s) ids"
  by (induction ids arbitrary: res) simp_all

text \<open>
  Claim C9. For every request, \<open>GetProfiles\<close> returns the error \<open>nil\<close> and a
  result with exactly one entry per requested id, in request order: the entry at
  position \<open>i\<close> is what the profile map holds for the \<open>i\<close>-th id, which is \<open>nil\<close>
  when the map does not hold that id.
\<close>

theorem GetProfiles_one_entry_per_id:
  "snd (GetProfiles s req) = None \<and>
   length (Hotels (fst (GetProfiles s req))) = length (req_HotelIds req) \<and>
   (\<forall>i < length (req_HotelIds req).
      Hotels (fst (GetProfiles s req)) ! i = profiles s (req_HotelIds req ! i) \<and>
      (req_HotelIds req ! i \<notin> dom (profiles s) \<longrightarrow>
         Hotels (fst (GetProfiles s req)) ! i = None))"
proof -
  have hotels: "Hotels (fst (GetProfiles s req)) = map (getProfile s) (req_HotelIds req)"
    by (simp add: GetProfiles_def append_profiles_Hotels)
  have "snd (GetProfiles s req) = None"
    by (simp add: GetProfiles_def)
  moreover have "profiles s ident = None" if "ident \<notin> dom (profiles s)" for ident
    using that by (simp add: domIff)
  ultimately show ?thesis
    by (simp add: hotels getProfile_def)
qed

theorem GetProfiles_one_entry_per_id_witness:
  "GetProfiles example_Profile \<lparr>req_HotelIds = [''9'', ''1''], Locale = ''en''\<rparr> =
     (\<lparr>Hotels = [None, Some hotel1]\<rparr>, None) \<and>
   ''9'' \<notin> dom (profiles example_Profile)"
proof -
  let ?req = "\<lparr>req_HotelIds = [''9'', ''1''], Locale = ''en''\<rparr>"
  note inst = GetProfiles_one_entry_per_id[of example_Profile ?req]
  from inst have e: "snd (GetProfiles example_Profile ?req) = None"
    and l: "length (Hotels (fst (GetProfiles example_Profile ?req))) = 2"
    by simp_all
  from inst have "Hotels (fst (GetProfiles example_Profile ?req)) ! 0 = None"
    by (simp add: example_Profile_def)
  moreover from inst have "Hotels (fst (GetProfiles example_Profile ?req)) ! 1 = Some hotel1"
    by (simp add: example_Profile_def)
  ultimately have "Hotels (fst (GetProfiles example_Profile ?req)) = [None, Some hotel1]"
    using l by (auto simp: list_eq_iff_nth_eq less_Suc_eq numeral_2_eq_2)
  with e have "GetProfiles example_Profile ?req = (\<lparr>Hotels = [None, Some hotel1]\<rparr>, None)"
    by (cases "GetProfiles example_Profile ?req") (cases "fst (GetProfiles example_Profile ?req)", simp)
  then show ?thesis by (simp add: example_Profile_def)
qed

section \<open>Properties of the frontend\<close>

lemma Values_Get_empty_iff: "Values_Get v key = '''' \<longleftrightarrow> missing_or_empty v key"
  by (simp add: Values_Get_def missing_or_empty_def split: option.splits list.splits)

lemma Values_Get_nonempty: "\<not> missing_or_empty v key \<Longrightarrow> Values_Get v key \<noteq> ''''"
  by (simp add: Values_Get_empty_iff)

text \<open>
  Claim C4. For every request to /hotels whose \<open>inDate\<close> or \<open>outDate\<close> parameter
  is missing or empty, whatever the two clients would answer, the handler replies
  with status 400 and the plain-text message "Please specify inDate/outDate
  params", and it makes no remote call.
\<close>

theorem searchHandler_rejects_missing_dates:
  assumes "missing_or_empty (Query r) ''inDate'' \<or> missing_or_empty (Query r) ''outDate''"
  shows "\<exists>w'. searchHandler s w r = (Reply w', []) \<and>
           StatusCode w' = 400 \<and>
           Body w' = PlainText (''Please specify inDate/outDate params'' @ [CHR 0x0A]) \<and>
           Header w' ''Content-Type'' = Some ''text/plain; charset=utf-8''"
proof -
  from assms have "Values_Get (Query r) ''inDate'' = '''' \<or> Values_Get (Query r) ''outDate'' = ''''"
    by (simp add: Values_Get_empty_iff)
  then have "searchHandler s w r =
      (Reply (http_Error (Header_Set w ''Access-Control-Allow-Origin'' ''*'')
         ''Please specify inDate/outDate params'' StatusBadRequest), [])"
    by (auto simp: searchHandler_def Let_def)
  then show ?thesis
    by (simp add: http_Error_def Header_Set_def StatusBadRequest_def)
qed

theorem searchHandler_rejects_missing_dates_witness:
  "missing_or_empty (Query request_no_dates) ''inDate'' \<and>
   (\<exists>w'. searchHandler failing_Frontend new_ResponseWriter request_no_dates = (Reply w', []) \<and>
      StatusCode w' = 400)"
proof -
  have m: "missing_or_empty (Query request_no_dates) ''inDate''"
    by (simp add: missing_or_empty_def request_no_dates_def)
  then have "missing_or_empty (Query request_no_dates) ''inDate'' \<or>
      missing_or_empty (Query request_no_dates) ''outDate''"
    by simp
  from searchHandler_rejects_missing_dates[OF this, of failing_Frontend new_ResponseWriter] m
  show ?thesis by blast
qed

text \<open>
  Claim C5. For every request to /hotels with both dates present, if the search
  client's \<open>Nearby\<close> answers the handler's request with an error, the handler
  replies with status 500 and a body that is the error's message followed by a
  newline; the \<open>Nearby\<close> call is the only remote call, so the profile client's
  \<open>GetProfiles\<close> is not called.
\<close>

theorem searchHandler_search_error_is_500:
  assumes "\<not> missing_or_empty (Query r) ''inDate''"
    and "\<not> missing_or_empty (Query r) ''outDate''"
    and "searchClient s \<lparr>Lat = 37.7879, Lon = - 122.4075,
           InDate = Values_Get (Query r) ''inDate'',
           OutDate = Values_Get (Query r) ''outDate''\<rparr> = Inl err"
  shows "\<exists>w'. fst (searchHandler s w r) = Reply w' \<and>
           StatusCode w' = 500 \<and>
           Body w' = PlainText (err @ [CHR 0x0A]) \<and>
           snd (searchHandler s w r) =
             [Call_Nearby \<lparr>Lat = 37.7879, Lon = - 122.4075,
                InDate = Values_Get (Query r) ''inDate'',
                OutDate = Values_Get (Query r) ''outDate''\<rparr>] \<and>
           (\<forall>q. Call_GetProfiles q \<notin> set (snd (searchHandler s w r)))"
proof -
  from assms(1,2) have "Values_Get (Query r) ''inDate'' \<noteq> ''''" "Values_Get (Query r) ''outDate'' \<noteq> ''''"
    by (simp_all add: Values_Get_nonempty)
  with assms(3) have "searchHandler s w r =
      (Reply (http_Error (Header_Set w ''Access-Control-Allow-Origin'' ''*'') err
         StatusInternalServerError),
       [Call_Nearby \<lparr>Lat = 37.7879, Lon = - 122.4075,
          InDate = Values_Get (Query r) ''inDate'',
          OutDate = Values_Get (Query r) ''outDate''\<rparr>])"
    by (simp add: searchHandler_def Let_def)
  then show ?thesis
    by (simp add: http_Error_def Header_Set_def StatusInternalServerError_def)
qed

theorem searchHandler_search_error_is_500_witness:
  "\<not> missing_or_empty (Query request_dates) ''inDate'' \<and>
   \<not> missing_or_empty (Query request_dates) ''outDate'' \<and>
   (\<exists>w'. fst (searchHandler failing_Frontend new_ResponseWriter request_dates) = Reply w' \<and>
      StatusCode w' = 500 \<and>
      Body w' = PlainText (''rpc error: code = Unavailable'' @ [CHR 0x0A])) \<and>
   length (snd (searchHandler failing_Frontend new_ResponseWriter request_dates)) = 1"
proof -
  have a: "\<not> missing_or_empty (Query request_dates) ''inDate''"
    by (simp add: missing_or_empty_def request_dates_def)
  have b: "\<not> missing_or_empty (Query request_dates) ''outDate''"
    by (simp add: missing_or_empty_def request_dates_def)
  have c: "searchClient failing_Frontend \<lparr>Lat = 37.7879, Lon = - 122.4075,
           InDate = Values_Get (Query request_dates) ''inDate'',
           OutDate = Values_Get (Query request_dates) ''outDate''\<rparr> =
         Inl ''rpc error: code = Unavailable''"
    by (simp add: failing_Frontend_def)
  from searchHandler_search_error_is_500[OF a b c, of new_ResponseWriter] a b
  show ?thesis by auto
qed

text \<open>
  Claim C8. For every request to /hotels with both dates present, whatever else
  the request holds and whatever the clients answer, the first remote call is a
  \<open>Nearby\<close> call with latitude 37.7879 and longitude -122.4075, and no later call
  is a \<open>Nearby\<close> call.
\<close>

theorem searchHandler_fixed_coordinates:
  assumes "\<not> missing_or_empty (Query r) ''inDate''"
    and "\<not> missing_or_empty (Query r) ''outDate''"
  shows "\<exists>q rest. snd (searchHandler s w r) = Call_Nearby q # rest \<and>
           Lat q = 37.7879 \<and> Lon q = - 122.4075 \<and>
           (\<forall>c \<in> set rest. \<forall>q'. c \<noteq> Call_Nearby q')"
proof -
  from assms have "Values_Get (Query r) ''inDate'' \<noteq> ''''" "Values_Get (Query r) ''outDate'' \<noteq> ''''"
    by (simp_all add: Values_Get_nonempty)
  then show ?thesis
    by (auto simp: searchHandler_def Let_def split: sum.splits option.splits)
qed

theorem searchHandler_fixed_coordinates_witness:
  "\<not> missing_or_empty (Query request_dates) ''inDate'' \<and>
   \<not> missing_or_empty (Query request_dates) ''outDate'' \<and>
   (\<exists>q rest. snd (searchHandler ok_Frontend new_ResponseWriter request_dates) = Call_Nearby q # rest \<and>
      Lat q = 37.7879 \<and> Lon q = - 122.4075 \<and> length rest = 1)"
proof -
  have a: "\<not> missing_or_empty (Query request_dates) ''inDate''"
    by (simp add: missing_or_empty_def request_dates_def)
  have b: "\<not> missing_or_empty (Query request_dates) ''outDate''"
    by (simp add: missing_or_empty_def request_dates_def)
  have l: "length (snd (searchHandler ok_Frontend new_ResponseWriter request_dates)) = 2"
    by (simp add: searchHandler_def Let_def ok_Frontend_def Values_Get_def request_dates_def
        geoJSONResponse_def feature_def hotel1_def)
  from searchHandler_fixed_coordinates[OF a b, of ok_Frontend new_ResponseWriter]
  obtain q rest where "snd (searchHandler ok_Frontend new_ResponseWriter request_dates) = Call_Nearby q # rest"
    "Lat q = 37.7879" "Lon q = - 122.4075"
    by blast
  with l a b show ?thesis by auto
qed

section \<open>Properties of the entry point\<close>

text \<open>
  No role token begins with a dash, so a role token in \<^verbatim>\<open>os.Args[1]\<close> is never
  read as a flag: it is the first positional argument.
\<close>

lemma role_tokens_no_dash: "t \<in> set role_tokens \<Longrightarrow> hd t \<noteq> CHR ''-''"
  by (auto simp: role_tokens_def)

text \<open>
  Claim C7. When \<^verbatim>\<open>os.Args[1]\<close>, the argument \<^verbatim>\<open>main\<close> takes for the command, is
  none of the five role tokens, the process ends at startup: the flag package
  ends it on a bad flag, or \<^verbatim>\<open>log.Fatalf\<close> does, with "unknown cmd" once the
  flags are parsed and the tracer is made. On the way nothing is dialled, no
  service is built and no listen loop is started.
\<close>

theorem main_unknown_role_is_fatal:
  assumes "1 < length os_Args" and "os_Args ! 1 \<notin> set role_tokens"
  shows "(fst (main E os_Args) = FlagExit \<or> (\<exists>msg. fst (main E os_Args) = Fatal msg)) \<and>
         (\<forall>f. flag_Parse E (tl os_Args) = Some f \<and> cfg_New E ''search'' (jaegeraddr f) = None \<longrightarrow>
              main E os_Args =
                (Fatal (''unknown cmd: '' @ os_Args ! 1), [Ev_trace_New ''search'' (jaegeraddr f)])) \<and>
         (\<forall>e \<in> set (snd (main E os_Args)). \<not> facade_event e)"
proof -
  from assms(1) have ne: "os_Args \<noteq> []" "\<not> length os_Args \<le> 1"
    by auto
  from assms(2) have cmd: "os_Args ! 1 \<noteq> ''geo''" "os_Args ! 1 \<noteq> ''rate''"
    "os_Args ! 1 \<noteq> ''profile''" "os_Args ! 1 \<noteq> ''search''" "os_Args ! 1 \<noteq> ''frontend''"
    by (auto simp: role_tokens_def)
  show ?thesis
  proof (cases "flag_Parse E (tl os_Args)")
    case None
    with ne show ?thesis by (simp add: main_def)
  next
    case (Some f)
    show ?thesis
    proof (cases "cfg_New E ''search'' (jaegeraddr f)")
      case None
      with Some ne cmd show ?thesis
        by (simp add: main_def trace_New_def Let_def)
    next
      case (Some err)
      with \<open>flag_Parse E (tl os_Args) = Some f\<close> ne show ?thesis
        by (simp add: main_def trace_New_def Let_def)
    qed
  qed
qed

theorem main_unknown_role_is_fatal_witness:
  "1 < length [''app'', ''cache''] \<and> [''app'', ''cache''] ! 1 \<notin> set role_tokens \<and>
   main example_env [''app'', ''cache''] =
     (Fatal ''unknown cmd: cache'', [Ev_trace_New ''search'' ''jaeger:6831''])"
proof -
  have a: "1 < length [''app'', ''cache'']"
    by simp
  have b: "[''app'', ''cache''] ! 1 \<notin> set role_tokens"
    by (simp add: role_tokens_def)
  have p: "flag_Parse example_env (tl [''app'', ''cache'']) =
      Some (default_flags\<lparr>flag_Args := [''cache'']\<rparr>)"
    by (simp add: example_env_def example_Parse_def)
  have t: "cfg_New example_env ''search'' (jaegeraddr (default_flags\<lparr>flag_Args := [''cache'']\<rparr>)) = None"
    by (simp add: example_env_def)
  from main_unknown_role_is_fatal[OF a b, of example_env] p t
  have "main example_env [''app'', ''cache''] =
      (Fatal (''unknown cmd: '' @ [''app'', ''cache''] ! 1),
       [Ev_trace_New ''search'' (jaegeraddr (default_flags\<lparr>flag_Args := [''cache'']\<rparr>))])"
    by blast
  with a b show ?thesis
    by (simp add: default_flags_def)
qed

text \<open>
  Claim C10, as the code has it. When the process is started with no argument at
  all, so that \<^verbatim>\<open>os.Args\<close> holds the program name only, and the tracer is made,
  \<^verbatim>\<open>main\<close> panics on the index \<^verbatim>\<open>os.Args[1]\<close>, out of range for length 1; it does
  not reach the switch, so there is no "unknown cmd" message.
\<close>

theorem main_no_arguments_panics:
  assumes "length os_Args = 1"
    and "flag_Parse E [] = Some f"
    and "cfg_New E ''search'' (jaegeraddr f) = None"
  shows "main E os_Args = (Panic (IndexOutOfRange 1 1), [Ev_trace_New ''search'' (jaegeraddr f)])"
proof -
  from assms(1) obtain prog where "os_Args = [prog]"
    by (cases os_Args) auto
  with assms(2,3) show ?thesis
    by (simp add: main_def trace_New_def Let_def)
qed

theorem main_no_arguments_panics_witness:
  "length [''app''] = 1 \<and> flag_Parse example_env [] = Some default_flags \<and>
   main example_env [''app''] = (Panic (IndexOutOfRange 1 1), [Ev_trace_New ''search'' ''jaeger:6831''])"
proof -
  have a: "length [''app''] = 1"
    by simp
  have p: "flag_Parse example_env [] = Some default_flags"
    by (simp add: example_env_def example_Parse_def)
  have t: "cfg_New example_env ''search'' (jaegeraddr default_flags) = None"
    by (simp add: example_env_def)
  from main_no_arguments_panics[OF a p t] p show ?thesis
    by (simp add: default_flags_def)
qed

text \<open>
  Claim C10 as stated fails: started as \<^verbatim>\<open>app -port 9000\<close>, the process has no
  positional argument, yet \<^verbatim>\<open>os.Args[1]\<close> is the flag \<^verbatim>\<open>-port\<close>; \<^verbatim>\<open>main\<close> does not
  panic and ends on the unknown-command path.
\<close>

theorem main_flags_only_counterexample:
  "flag_Parse example_env (tl [''app'', ''-port'', ''9000'']) = Some (default_flags\<lparr>port := 9000\<rparr>) \<and>
   flag_Args (default_flags\<lparr>port := 9000\<rparr>) = [] \<and>
   main example_env [''app'', ''-port'', ''9000''] =
     (Fatal ''unknown cmd: -port'', [Ev_trace_New ''search'' ''jaeger:6831''])"
  by (simp add: main_def trace_New_def example_env_def example_Parse_def default_flags_def Let_def)

end
